theory Spec2Isabelle
  imports Complex_Main
begin

section \<open>The appointment backend of app.py\<close>

text \<open>
  The program is a Flask application: every route handler reads a request, queries or
  updates the tables of one relational store (SQLite, through SQLAlchemy), and answers
  with a JSON document and an HTTP status. The handlers are embedded as functions on an
  explicit store. A handler that writes returns its response together with the store
  after the commit; a handler that only reads returns its response.

  Conventions of the embedding:
  \<^item> a table is the list of its rows in insertion order; \<open>Model.query.get(k)\<close> and
    \<open>filter_by(...).first()\<close> are \<open>find\<close>, \<open>filter_by(...).all()\<close> is \<open>filter\<close>;
  \<^item> a value of a JSON request body is a string or an integer. A \<open>db.String\<close> column
    holds text: a string is stored as it is and an integer as its decimal text, and a
    query compares the text (\<open>sqlite_text\<close>). A \<open>db.Date\<close> or \<open>db.Time\<close> column holds
    the ISO text of a date or time object; its bind processor raises on every other
    value, so on every value of a JSON body (\<open>sqlite_date\<close>, \<open>sqlite_time\<close>), and no
    handler parses the text that the client sent. A query that compares such a column
    with a string (the \<open>date\<close> argument of the slot listing) compares the stored text;
  \<^item> the identifier \<open>str(uuid.uuid4())[:20]\<close> of a new row is an argument of the
    handler that inserts the row;
  \<^item> \<open>db.session.commit()\<close> binds the values of the inserted row and checks its
    primary key and its \<open>unique=True\<close> columns; a failure raises, and so do
    \<open>data[key]\<close> on an absent key and the password functions on a password that is
    not a string. An exception that no handler catches ends in \<open>internal_error\<close>:
    status 500, and the store as it was before the request;
  \<^item> \<open>@jwt_required()\<close> gives the identity of the verified token, or the error
    response of the token library (401 for a missing or expired token, 422 for a
    malformed one), which is the answer of the route;
  \<^item> password hashing and token issuance are arguments (\<open>caps\<close>);
  \<^item> \<open>Float\<close> columns hold rationals; the clock-valued columns (\<open>registration_date\<close>,
    \<open>created_at\<close>, \<open>updated_at\<close>) and the columns that no handler reads or writes
    (\<open>date_of_birth\<close>, \<open>address\<close>, \<open>blood_group\<close>, \<open>medical_history\<close>,
    \<open>experience_years\<close>, \<open>bio\<close>, \<open>consultation_fee\<close>) are left out.
\<close>

subsection \<open>Values, errors, capabilities\<close>

datatype json = JStr string | JInt int

type_synonym body = "string \<rightharpoonup> json"

text \<open>An error response \<open>jsonify({'error': message}), status\<close>.\<close>

datatype error = HttpError nat string

definition internal_error :: error where
  "internal_error = HttpError 500 ''Internal server error''"



record caps =
  generate_password_hash :: "string \<Rightarrow> string"
  check_password_hash :: "string \<Rightarrow> string \<Rightarrow> bool"
  create_access_token :: "string \<Rightarrow> string"

text \<open>Python's truth test of an optional query-string argument (\<open>if date:\<close>).\<close>

fun truthy :: "string option \<Rightarrow> bool" where
  "truthy None = False"
| "truthy (Some s) = (s \<noteq> [])"

text \<open>
  \<open>round(x, 2)\<close>: the nearest multiple of 1/100, a tie going to the even one.
\<close>

definition round2 :: "rat \<Rightarrow> rat" where
  "round2 x =
     (let y = x * 100; f = \<lfloor>y\<rfloor>; r = y - of_int f
      in of_int (if r < 1 / 2 then f
                 else if 1 / 2 < r then f + 1
                 else if even f then f else f + 1) / 100)"

subsection \<open>Binding a JSON value to a column\<close>

text \<open>The decimal text of an integer (\<open>str_digits\<close> is applied to a number from 0 on).\<close>

definition digit_char :: "int \<Rightarrow> char" where
  "digit_char d = ''0123456789'' ! nat d"

function str_digits :: "int \<Rightarrow> string" where
  "str_digits n =
     (if n < 10 then [digit_char n] else str_digits (n div 10) @ [digit_char (n mod 10)])"
  by pat_completeness auto
termination
  by (relation "measure nat") auto

declare str_digits.simps [simp del]

definition str_int :: "int \<Rightarrow> string" where
  "str_int i = (if i < 0 then CHR ''-'' # str_digits (- i) else str_digits i)"

text \<open>
  A text column: a string is bound as it is, an integer of 64 bits as its decimal text
  (the text affinity of the column); a larger integer makes the driver raise.
\<close>

definition sqlite_text :: "json \<Rightarrow> string option" where
  "sqlite_text v =
     (case v of
        JStr s \<Rightarrow> Some s
      | JInt i \<Rightarrow> if - (2 ^ 63) \<le> i \<and> i < 2 ^ 63 then Some (str_int i) else None)"

text \<open>
  A date or time column: the bind processor takes a date or time object and raises
  \<open>TypeError\<close> on anything else. Neither a JSON string nor a JSON number is such an
  object, so there is no value to store.
\<close>

fun sqlite_date :: "json \<Rightarrow> json option" where
  "sqlite_date (JStr s) = None"
| "sqlite_date (JInt i) = None"

fun sqlite_time :: "json \<Rightarrow> json option" where
  "sqlite_time (JStr s) = None"
| "sqlite_time (JInt i) = None"

subsection \<open>Enum and tables\<close>

datatype AppointmentStatus = PENDING | CONFIRMED | COMPLETED | CANCELLED | REJECTED

fun status_value :: "AppointmentStatus \<Rightarrow> string" where
  "status_value PENDING = ''PENDING''"
| "status_value CONFIRMED = ''CONFIRMED''"
| "status_value COMPLETED = ''COMPLETED''"
| "status_value CANCELLED = ''CANCELLED''"
| "status_value REJECTED = ''REJECTED''"

record Patient =
  p_id :: string
  p_first_name :: json
  p_last_name :: json
  p_email :: json
  p_phone :: json
  p_password_hash :: string

record Doctor =
  d_id :: string
  d_first_name :: json
  d_last_name :: json
  d_email :: json
  d_phone :: json
  d_password_hash :: string
  d_specialization :: json
  d_license_number :: json
  d_rating_average :: rat
  d_is_available :: bool

record TimeSlot =
  s_id :: string
  s_doctor_id :: string
  s_date :: json
  s_start_time :: json
  s_end_time :: json
  s_is_available :: bool
  s_capacity :: json
  s_booked_count :: int

record Appointment =
  a_id :: string
  a_patient_id :: string
  a_doctor_id :: json
  a_appointment_date :: json
  a_appointment_time :: json
  a_status :: string
  a_consultation_notes :: "json option"
  a_ai_recommendation :: "string option"

record Review =
  r_id :: string
  r_patient_id :: string
  r_doctor_id :: string
  r_appointment_id :: "string option"
  r_rating :: int
  r_comment :: "string option"

record db =
  patients :: "Patient list"
  doctors :: "Doctor list"
  time_slots :: "TimeSlot list"
  appointments :: "Appointment list"
  reviews :: "Review list"

definition empty_db :: db where
  "empty_db = \<lparr>patients = [], doctors = [], time_slots = [], appointments = [], reviews = []\<rparr>"

subsection \<open>The to_dict methods\<close>

record PatientDict =
  pd_id :: string
  pd_first_name :: json
  pd_last_name :: json
  pd_email :: json
  pd_phone :: json

definition Patient_to_dict :: "Patient \<Rightarrow> PatientDict" where
  "Patient_to_dict p =
     \<lparr>pd_id = p_id p, pd_first_name = p_first_name p, pd_last_name = p_last_name p,
      pd_email = p_email p, pd_phone = p_phone p\<rparr>"

record DoctorDict =
  dd_id :: string
  dd_first_name :: json
  dd_last_name :: json
  dd_email :: json
  dd_specialization :: json
  dd_rating_average :: rat
  dd_is_available :: bool

definition Doctor_to_dict :: "Doctor \<Rightarrow> DoctorDict" where
  "Doctor_to_dict d =
     \<lparr>dd_id = d_id d, dd_first_name = d_first_name d, dd_last_name = d_last_name d,
      dd_email = d_email d, dd_specialization = d_specialization d,
      dd_rating_average = round2 (d_rating_average d), dd_is_available = d_is_available d\<rparr>"

record TimeSlotDict =
  sd_id :: string
  sd_doctor_id :: string
  sd_date :: json
  sd_start_time :: json
  sd_end_time :: json
  sd_is_available :: bool

definition TimeSlot_to_dict :: "TimeSlot \<Rightarrow> TimeSlotDict" where
  "TimeSlot_to_dict s =
     \<lparr>sd_id = s_id s, sd_doctor_id = s_doctor_id s, sd_date = s_date s,
      sd_start_time = s_start_time s, sd_end_time = s_end_time s,
      sd_is_available = s_is_available s\<rparr>"

record AppointmentDict =
  ad_id :: string
  ad_patient_id :: string
  ad_doctor_id :: json
  ad_appointment_date :: json
  ad_appointment_time :: json
  ad_status :: string
  ad_consultation_notes :: "json option"
  ad_ai_recommendation :: "string option"

definition Appointment_to_dict :: "Appointment \<Rightarrow> AppointmentDict" where
  "Appointment_to_dict a =
     \<lparr>ad_id = a_id a, ad_patient_id = a_patient_id a, ad_doctor_id = a_doctor_id a,
      ad_appointment_date = a_appointment_date a, ad_appointment_time = a_appointment_time a,
      ad_status = a_status a, ad_consultation_notes = a_consultation_notes a,
      ad_ai_recommendation = a_ai_recommendation a\<rparr>"

subsection \<open>Auth routes\<close>

text \<open>
  \<open>patient_register\<close>: the five required keys, then the e-mail query, then the row, its
  password digest and the insert. After the e-mail check the commit can still fail on
  the primary key.
\<close>

definition column_text :: "body \<Rightarrow> string \<Rightarrow> json" where
  "column_text data key = JStr (the (sqlite_text (the (data key))))"

definition patient_register ::
  "caps \<Rightarrow> db \<Rightarrow> string \<Rightarrow> body \<Rightarrow> (error + string \<times> PatientDict) \<times> db" where
  "patient_register K st new_id data =
     (if \<not> list_all (\<lambda>key. data key \<noteq> None)
            [''first_name'', ''last_name'', ''email'', ''phone'', ''password'']
      then (Inl (HttpError 400 ''Missing required fields''), st)
      else if sqlite_text (the (data ''email'')) = None
      then (Inl internal_error, st)
      else if find (\<lambda>p. p_email p = column_text data ''email'') (patients st) \<noteq> None
      then (Inl (HttpError 400 ''Email already exists''), st)
      else
        (case the (data ''password'') of
           JInt i \<Rightarrow> (Inl internal_error, st)
         | JStr password \<Rightarrow>
             if \<not> list_all (\<lambda>key. sqlite_text (the (data key)) \<noteq> None)
                    [''first_name'', ''last_name'', ''phone'']
             then (Inl internal_error, st)
             else
               let patient =
                     \<lparr>p_id = new_id,
                      p_first_name = column_text data ''first_name'',
                      p_last_name = column_text data ''last_name'',
                      p_email = column_text data ''email'',
                      p_phone = column_text data ''phone'',
                      p_password_hash = generate_password_hash K password\<rparr>
               in if list_ex (\<lambda>q. p_id q = p_id patient \<or> p_email q = p_email patient)
                       (patients st)
                  then (Inl internal_error, st)
                  else (Inr (create_access_token K (p_id patient), Patient_to_dict patient),
                        st\<lparr>patients := patients st @ [patient]\<rparr>)))"

text \<open>
  \<open>patient_login\<close>: \<open>not patient or not patient.check_password(...)\<close> reads the password
  only when a patient was found.
\<close>

definition patient_login :: "caps \<Rightarrow> db \<Rightarrow> body \<Rightarrow> error + string \<times> PatientDict" where
  "patient_login K st data =
     (case data ''email'' of
        None \<Rightarrow> Inl internal_error
      | Some v \<Rightarrow>
          (case sqlite_text v of
             None \<Rightarrow> Inl internal_error
           | Some email \<Rightarrow>
               (case find (\<lambda>p. p_email p = JStr email) (patients st) of
                  None \<Rightarrow> Inl (HttpError 401 ''Invalid credentials'')
                | Some patient \<Rightarrow>
                    (case data ''password'' of
                       None \<Rightarrow> Inl internal_error
                     | Some (JInt i) \<Rightarrow> Inl internal_error
                     | Some (JStr password) \<Rightarrow>
                         if \<not> check_password_hash K (p_password_hash patient) password
                         then Inl (HttpError 401 ''Invalid credentials'')
                         else Inr (create_access_token K (p_id patient),
                                   Patient_to_dict patient)))))"

text \<open>
  \<open>doctor_register\<close>: seven required keys and the same e-mail query. The handler has no
  query on \<open>license_number\<close>; that column is \<open>unique=True\<close>, so the commit checks it.
\<close>

definition doctor_register ::
  "caps \<Rightarrow> db \<Rightarrow> string \<Rightarrow> body \<Rightarrow> (error + string \<times> DoctorDict) \<times> db" where
  "doctor_register K st new_id data =
     (if \<not> list_all (\<lambda>key. data key \<noteq> None)
            [''first_name'', ''last_name'', ''email'', ''phone'', ''password'',
             ''specialization'', ''license_number'']
      then (Inl (HttpError 400 ''Missing required fields''), st)
      else if sqlite_text (the (data ''email'')) = None
      then (Inl internal_error, st)
      else if find (\<lambda>d. d_email d = column_text data ''email'') (doctors st) \<noteq> None
      then (Inl (HttpError 400 ''Email already exists''), st)
      else
        (case the (data ''password'') of
           JInt i \<Rightarrow> (Inl internal_error, st)
         | JStr password \<Rightarrow>
             if \<not> list_all (\<lambda>key. sqlite_text (the (data key)) \<noteq> None)
                    [''first_name'', ''last_name'', ''phone'', ''specialization'',
                     ''license_number'']
             then (Inl internal_error, st)
             else
               let doctor =
                     \<lparr>d_id = new_id,
                      d_first_name = column_text data ''first_name'',
                      d_last_name = column_text data ''last_name'',
                      d_email = column_text data ''email'',
                      d_phone = column_text data ''phone'',
                      d_password_hash = generate_password_hash K password,
                      d_specialization = column_text data ''specialization'',
                      d_license_number = column_text data ''license_number'',
                      d_rating_average = 0,
                      d_is_available = True\<rparr>
               in if list_ex (\<lambda>q. d_id q = d_id doctor \<or> d_email q = d_email doctor
                                   \<or> d_license_number q = d_license_number doctor) (doctors st)
                  then (Inl internal_error, st)
                  else (Inr (create_access_token K (d_id doctor), Doctor_to_dict doctor),
                        st\<lparr>doctors := doctors st @ [doctor]\<rparr>)))"

definition doctor_login :: "caps \<Rightarrow> db \<Rightarrow> body \<Rightarrow> error + string \<times> DoctorDict" where
  "doctor_login K st data =
     (case data ''email'' of
        None \<Rightarrow> Inl internal_error
      | Some v \<Rightarrow>
          (case sqlite_text v of
             None \<Rightarrow> Inl internal_error
           | Some email \<Rightarrow>
               (case find (\<lambda>d. d_email d = JStr email) (doctors st) of
                  None \<Rightarrow> Inl (HttpError 401 ''Invalid credentials'')
                | Some doctor \<Rightarrow>
                    (case data ''password'' of
                       None \<Rightarrow> Inl internal_error
                     | Some (JInt i) \<Rightarrow> Inl internal_error
                     | Some (JStr password) \<Rightarrow>
                         if \<not> check_password_hash K (d_password_hash doctor) password
                         then Inl (HttpError 401 ''Invalid credentials'')
                         else Inr (create_access_token K (d_id doctor),
                                   Doctor_to_dict doctor)))))"

subsection \<open>Doctor routes\<close>

definition get_doctors :: "db \<Rightarrow> string option \<Rightarrow> DoctorDict list \<times> nat" where
  "get_doctors st specialization =
     (let query = filter (\<lambda>d. d_is_available d) (doctors st);
          query = (if truthy specialization
                   then filter (\<lambda>d. d_specialization d = JStr (the specialization)) query
                   else query)
      in (map Doctor_to_dict query, length query))"

definition get_doctor :: "db \<Rightarrow> string \<Rightarrow> error + DoctorDict" where
  "get_doctor st doctor_id =
     (case find (\<lambda>d. d_id d = doctor_id) (doctors st) of
        None \<Rightarrow> Inl (HttpError 404 ''Doctor not found'')
      | Some doctor \<Rightarrow> Inr (Doctor_to_dict doctor))"

definition get_available_slots ::
  "db \<Rightarrow> string \<Rightarrow> string option \<Rightarrow> error + TimeSlotDict list \<times> nat" where
  "get_available_slots st doctor_id date =
     (case find (\<lambda>d. d_id d = doctor_id) (doctors st) of
        None \<Rightarrow> Inl (HttpError 404 ''Doctor not found'')
      | Some doctor \<Rightarrow>
          let query = filter (\<lambda>s. s_doctor_id s = doctor_id \<and> s_is_available s) (time_slots st);
              query = (if truthy date
                       then filter (\<lambda>s. s_date s = JStr (the date)) query
                       else query)
          in Inr (map TimeSlot_to_dict query, length query))"

text \<open>
  \<open>add_time_slots\<close> assigns \<open>data['date']\<close>, \<open>data['start_time']\<close> and \<open>data['end_time']\<close>
  to the date and time columns as they came from the JSON body. The insert is written
  out as the source has it; the commit reaches it only with values that the columns
  accept.
\<close>

definition add_time_slots ::
  "db \<Rightarrow> error + string \<Rightarrow> string \<Rightarrow> string \<Rightarrow> body \<Rightarrow> (error + TimeSlotDict) \<times> db" where
  "add_time_slots st identity new_id doctor_id data =
     (case identity of
        Inl jwt_error \<Rightarrow> (Inl jwt_error, st)
      | Inr caller \<Rightarrow>
          (case find (\<lambda>d. d_id d = doctor_id) (doctors st) of
             None \<Rightarrow> (Inl (HttpError 404 ''Doctor not found''), st)
           | Some doctor \<Rightarrow>
               (case (data ''date'', data ''start_time'', data ''end_time'') of
                  (Some date, Some start_time, Some end_time) \<Rightarrow>
                    (case (sqlite_date date, sqlite_time start_time, sqlite_time end_time) of
                       (Some stored_date, Some stored_start, Some stored_end) \<Rightarrow>
                         let slot =
                               \<lparr>s_id = new_id, s_doctor_id = doctor_id, s_date = stored_date,
                                s_start_time = stored_start, s_end_time = stored_end,
                                s_is_available = True,
                                s_capacity =
                                  (case data ''capacity'' of None \<Rightarrow> JInt 1 | Some c \<Rightarrow> c),
                                s_booked_count = 0\<rparr>
                         in if list_ex (\<lambda>q. s_id q = s_id slot) (time_slots st)
                            then (Inl internal_error, st)
                            else (Inr (TimeSlot_to_dict slot),
                                  st\<lparr>time_slots := time_slots st @ [slot]\<rparr>)
                     | _ \<Rightarrow> (Inl internal_error, st))
                | _ \<Rightarrow> (Inl internal_error, st))))"

subsection \<open>Appointment routes\<close>

text \<open>
  \<open>book_appointment\<close>: the patient is the identity of the token. \<open>data['doctor_id']\<close> is
  read before the existence test, the date and the time after it, and both go to the
  date and time columns as they came from the JSON body.
\<close>

definition book_appointment ::
  "db \<Rightarrow> error + string \<Rightarrow> string \<Rightarrow> body \<Rightarrow> (error + AppointmentDict) \<times> db" where
  "book_appointment st identity new_id data =
     (case identity of
        Inl jwt_error \<Rightarrow> (Inl jwt_error, st)
      | Inr patient_id \<Rightarrow>
          (case data ''doctor_id'' of
             None \<Rightarrow> (Inl internal_error, st)
           | Some v \<Rightarrow>
               (case sqlite_text v of
                  None \<Rightarrow> (Inl internal_error, st)
                | Some doctor_id \<Rightarrow>
                    if find (\<lambda>p. p_id p = patient_id) (patients st) = None
                       \<or> find (\<lambda>d. d_id d = doctor_id) (doctors st) = None
                    then (Inl (HttpError 404 ''Patient or Doctor not found''), st)
                    else
                      (case (data ''appointment_date'', data ''appointment_time'') of
                         (Some appointment_date, Some appointment_time) \<Rightarrow>
                           (case (sqlite_date appointment_date, sqlite_time appointment_time) of
                              (Some stored_date, Some stored_time) \<Rightarrow>
                                let appointment =
                                      \<lparr>a_id = new_id, a_patient_id = patient_id,
                                       a_doctor_id = JStr doctor_id,
                                       a_appointment_date = stored_date,
                                       a_appointment_time = stored_time,
                                       a_status = status_value PENDING,
                                       a_consultation_notes = data ''consultation_notes'',
                                       a_ai_recommendation = None\<rparr>
                                in if list_ex (\<lambda>q. a_id q = a_id appointment) (appointments st)
                                   then (Inl internal_error, st)
                                   else (Inr (Appointment_to_dict appointment),
                                         st\<lparr>appointments := appointments st @ [appointment]\<rparr>)
                            | _ \<Rightarrow> (Inl internal_error, st))
                       | _ \<Rightarrow> (Inl internal_error, st)))))"

definition get_appointment :: "db \<Rightarrow> string \<Rightarrow> error + AppointmentDict" where
  "get_appointment st appointment_id =
     (case find (\<lambda>a. a_id a = appointment_id) (appointments st) of
        None \<Rightarrow> Inl (HttpError 404 ''Appointment not found'')
      | Some appointment \<Rightarrow> Inr (Appointment_to_dict appointment))"

definition get_patient_appointments ::
  "db \<Rightarrow> error + string \<Rightarrow> string \<Rightarrow> string option \<Rightarrow> error + AppointmentDict list \<times> nat" where
  "get_patient_appointments st identity patient_id status =
     (case identity of
        Inl jwt_error \<Rightarrow> Inl jwt_error
      | Inr caller \<Rightarrow>
          let query = filter (\<lambda>a. a_patient_id a = patient_id) (appointments st);
              query = (if truthy status
                       then filter (\<lambda>a. a_status a = the status) query
                       else query)
          in Inr (map Appointment_to_dict query, length query))"

text \<open>
  The two status handlers load the row by primary key and assign the new status; the
  commit writes the row back in place.
\<close>

definition set_status :: "string \<Rightarrow> string \<Rightarrow> Appointment list \<Rightarrow> Appointment list" where
  "set_status appointment_id v rows =
     map (\<lambda>a. if a_id a = appointment_id then a\<lparr>a_status := v\<rparr> else a) rows"

definition cancel_appointment ::
  "db \<Rightarrow> error + string \<Rightarrow> string \<Rightarrow> (error + AppointmentDict) \<times> db" where
  "cancel_appointment st identity appointment_id =
     (case identity of
        Inl jwt_error \<Rightarrow> (Inl jwt_error, st)
      | Inr caller \<Rightarrow>
          (case find (\<lambda>a. a_id a = appointment_id) (appointments st) of
             None \<Rightarrow> (Inl (HttpError 404 ''Appointment not found''), st)
           | Some appointment \<Rightarrow>
               (Inr (Appointment_to_dict (appointment\<lparr>a_status := status_value CANCELLED\<rparr>)),
                st\<lparr>appointments :=
                     set_status appointment_id (status_value CANCELLED) (appointments st)\<rparr>)))"

definition confirm_appointment ::
  "db \<Rightarrow> error + string \<Rightarrow> string \<Rightarrow> (error + AppointmentDict) \<times> db" where
  "confirm_appointment st identity appointment_id =
     (case identity of
        Inl jwt_error \<Rightarrow> (Inl jwt_error, st)
      | Inr caller \<Rightarrow>
          (case find (\<lambda>a. a_id a = appointment_id) (appointments st) of
             None \<Rightarrow> (Inl (HttpError 404 ''Appointment not found''), st)
           | Some appointment \<Rightarrow>
               (Inr (Appointment_to_dict (appointment\<lparr>a_status := status_value CONFIRMED\<rparr>)),
                st\<lparr>appointments :=
                     set_status appointment_id (status_value CONFIRMED) (appointments st)\<rparr>)))"

subsection \<open>Reachable stores\<close>

text \<open>
  The stores the service can be in: the empty store, and the store after any handler
  that writes, run on a reachable store with any arguments.
\<close>

inductive reachable :: "db \<Rightarrow> bool" where
  start: "reachable empty_db"
| patient_register: "reachable st \<Longrightarrow> reachable (snd (patient_register K st new_id data))"
| doctor_register: "reachable st \<Longrightarrow> reachable (snd (doctor_register K st new_id data))"
| add_time_slots:
    "reachable st \<Longrightarrow> reachable (snd (add_time_slots st identity new_id doctor_id data))"
| book_appointment: "reachable st \<Longrightarrow> reachable (snd (book_appointment st identity new_id data))"
| cancel_appointment: "reachable st \<Longrightarrow> reachable (snd (cancel_appointment st identity appointment_id))"
| confirm_appointment: "reachable st \<Longrightarrow> reachable (snd (confirm_appointment st identity appointment_id))"

subsection \<open>Properties of a slot row named by the specification\<close>


definition derived_is_available :: "TimeSlot \<Rightarrow> bool" where
  "derived_is_available s =
     (case s_capacity s of JInt c \<Rightarrow> s_booked_count s < c | JStr _ \<Rightarrow> False)"

subsection \<open>Sample requests and stores\<close>

text \<open>
  Sample capabilities and request bodies, and two stores that the handlers produce from
  the empty store: a doctor registers (\<open>db1\<close>), then a patient registers (\<open>db2\<close>).
  \<open>published_db\<close> is the store after the doctor's request to publish a slot.
\<close>

definition demo_caps :: caps where
  "demo_caps =
     \<lparr>generate_password_hash = (\<lambda>password. ''h:'' @ password),
      check_password_hash = (\<lambda>pwhash password. pwhash = ''h:'' @ password),
      create_access_token = (\<lambda>i. ''token:'' @ i)\<rparr>"

definition doctor_body :: body where
  "doctor_body =
     [''first_name'' \<mapsto> JStr ''Ada'', ''last_name'' \<mapsto> JStr ''Moss'',
      ''email'' \<mapsto> JStr ''ada@clinic'', ''phone'' \<mapsto> JStr ''100'',
      ''password'' \<mapsto> JStr ''pw1'', ''specialization'' \<mapsto> JStr ''cardiology'',
      ''license_number'' \<mapsto> JStr ''L1'']"

definition second_doctor_body :: body where
  "second_doctor_body =
     [''first_name'' \<mapsto> JStr ''Cy'', ''last_name'' \<mapsto> JStr ''Vale'',
      ''email'' \<mapsto> JStr ''cy@clinic'', ''phone'' \<mapsto> JStr ''300'',
      ''password'' \<mapsto> JStr ''pw3'', ''specialization'' \<mapsto> JStr ''oncology'',
      ''license_number'' \<mapsto> JStr ''L1'']"

definition patient_body :: body where
  "patient_body =
     [''first_name'' \<mapsto> JStr ''Bo'', ''last_name'' \<mapsto> JStr ''Reed'',
      ''email'' \<mapsto> JStr ''bo@home'', ''phone'' \<mapsto> JStr ''200'',
      ''password'' \<mapsto> JStr ''pw2'']"

definition login_body :: "string \<Rightarrow> string \<Rightarrow> body" where
  "login_body email password = [''email'' \<mapsto> JStr email, ''password'' \<mapsto> JStr password]"

text \<open>A login request whose password is the JSON number 5.\<close>

definition number_password_body :: "string \<Rightarrow> body" where
  "number_password_body email = [''email'' \<mapsto> JStr email, ''password'' \<mapsto> JInt 5]"

definition booking_body :: body where
  "booking_body =
     [''doctor_id'' \<mapsto> JStr ''d1'', ''appointment_date'' \<mapsto> JStr ''2024-06-01'',
      ''appointment_time'' \<mapsto> JStr ''10:00'']"

definition slot_body :: body where
  "slot_body =
     [''date'' \<mapsto> JStr ''2024-06-01'', ''start_time'' \<mapsto> JStr ''10:00'',
      ''end_time'' \<mapsto> JStr ''10:30'', ''capacity'' \<mapsto> JInt 1]"

definition db1 :: db where
  "db1 = snd (doctor_register demo_caps empty_db ''d1'' doctor_body)"

definition db2 :: db where
  "db2 = snd (patient_register demo_caps db1 ''p1'' patient_body)"

definition published_db :: db where
  "published_db = snd (add_time_slots db2 (Inr ''d1'') ''s1'' ''d1'' slot_body)"

text \<open>
  Rows written to the tables directly, in a database prepared outside the handlers. No
  handler stores a slot or an appointment (lemma \<open>reachable_tables_empty\<close> below), so
  the handlers that read or update these two tables meet a row only in such a store.
  The date and time columns hold the ISO text of the value.

  \<open>seeded_appointment_db\<close> is \<open>db2\<close> with one cancelled appointment of patient \<open>p1\<close> with
  doctor \<open>d1\<close>. \<open>seeded_slot_db\<close> is \<open>db2\<close> with two slots of doctor \<open>d1\<close>: \<open>full_slot\<close>
  is booked up to its capacity and has the column \<open>is_available\<close> true, \<open>closed_slot\<close>
  has free capacity and has the column false.
\<close>

definition seeded_appointment :: Appointment where
  "seeded_appointment =
     \<lparr>a_id = ''a1'', a_patient_id = ''p1'', a_doctor_id = JStr ''d1'',
      a_appointment_date = JStr ''2024-06-01'', a_appointment_time = JStr ''10:00:00'',
      a_status = status_value CANCELLED, a_consultation_notes = None,
      a_ai_recommendation = None\<rparr>"

definition seeded_appointment_db :: db where
  "seeded_appointment_db = db2\<lparr>appointments := [seeded_appointment]\<rparr>"

definition full_slot :: TimeSlot where
  "full_slot =
     \<lparr>s_id = ''s1'', s_doctor_id = ''d1'', s_date = JStr ''2024-06-01'',
      s_start_time = JStr ''10:00:00'', s_end_time = JStr ''10:30:00'',
      s_is_available = True, s_capacity = JInt 1, s_booked_count = 1\<rparr>"

definition closed_slot :: TimeSlot where
  "closed_slot =
     \<lparr>s_id = ''s2'', s_doctor_id = ''d1'', s_date = JStr ''2024-06-01'',
      s_start_time = JStr ''11:00:00'', s_end_time = JStr ''11:30:00'',
      s_is_available = False, s_capacity = JInt 1, s_booked_count = 0\<rparr>"

definition seeded_slot_db :: db where
  "seeded_slot_db = db2\<lparr>time_slots := [full_slot, closed_slot]\<rparr>"

section \<open>Verification\<close>

subsection \<open>The sample stores, evaluated\<close>

lemma db1_eq:
  "db1 = \<lparr>patients = [],
          doctors = [\<lparr>d_id = ''d1'', d_first_name = JStr ''Ada'', d_last_name = JStr ''Moss'',
                      d_email = JStr ''ada@clinic'', d_phone = JStr ''100'',
                      d_password_hash = ''h:pw1'', d_specialization = JStr ''cardiology'',
                      d_license_number = JStr ''L1'', d_rating_average = 0,
                      d_is_available = True\<rparr>],
          time_slots = [], appointments = [], reviews = []\<rparr>"
  by (simp add: db1_def doctor_register_def doctor_body_def empty_db_def demo_caps_def
        column_text_def sqlite_text_def Let_def)

lemma db2_eq:
  "db2 = \<lparr>patients = [\<lparr>p_id = ''p1'', p_first_name = JStr ''Bo'', p_last_name = JStr ''Reed'',
                       p_email = JStr ''bo@home'', p_phone = JStr ''200'',
                       p_password_hash = ''h:pw2''\<rparr>],
          doctors = [\<lparr>d_id = ''d1'', d_first_name = JStr ''Ada'', d_last_name = JStr ''Moss'',
                      d_email = JStr ''ada@clinic'', d_phone = JStr ''100'',
                      d_password_hash = ''h:pw1'', d_specialization = JStr ''cardiology'',
                      d_license_number = JStr ''L1'', d_rating_average = 0,
                      d_is_available = True\<rparr>],
          time_slots = [], appointments = [], reviews = []\<rparr>"
  by (simp add: db2_def db1_eq patient_register_def patient_body_def demo_caps_def
        column_text_def sqlite_text_def Let_def)



subsection \<open>Lemmas on the tables\<close>

lemma find_set_status:
  "find (\<lambda>a. a_id a = i) (set_status i v rows)
     = map_option (\<lambda>a. a\<lparr>a_status := v\<rparr>) (find (\<lambda>a. a_id a = i) rows)"
  by (induction rows) (simp_all add: set_status_def)

lemma filter_set_status:
  "filter (\<lambda>a. a_id a \<noteq> i) (set_status i v rows) = filter (\<lambda>a. a_id a \<noteq> i) rows"
  by (induction rows) (simp_all add: set_status_def)

lemma filter_then: "filter q (filter p xs) = filter (\<lambda>x. p x \<and> q x) xs"
  by (induction xs) simp_all

text \<open>A number bound to a text column is its decimal text.\<close>

lemma sqlite_text_number:
  "sqlite_text (JInt 5) = Some ''5''"
  "sqlite_text (JStr ''5'') = Some ''5''"
  by (simp_all add: sqlite_text_def str_int_def str_digits.simps [of 5] digit_char_def)

text \<open>No value of a JSON body is accepted by a date or time column.\<close>

lemma sqlite_date_None: "sqlite_date v = None"
  by (cases v) simp_all

lemma sqlite_time_None: "sqlite_time v = None"
  by (cases v) simp_all

text \<open>
  So the two inserting handlers of slots and appointments answer every request with an
  error and leave the store as it was.
\<close>

lemma add_time_slots_fails:
  "snd (add_time_slots st identity new_id doctor_id data) = st"
  "isl (fst (add_time_slots st identity new_id doctor_id data))"
  by (simp_all add: add_time_slots_def sqlite_date_None sqlite_time_None
        split: sum.splits option.splits)

lemma book_appointment_fails:
  "snd (book_appointment st identity new_id data) = st"
  "isl (fst (book_appointment st identity new_id data))"
  by (simp_all add: book_appointment_def sqlite_date_None sqlite_time_None
        split: sum.splits option.splits)

lemma book_appointment_not_found:
  assumes "data ''doctor_id'' = Some (JStr doctor_id)"
    and "find (\<lambda>p. p_id p = patient_id) (patients st) = None
         \<or> find (\<lambda>d. d_id d = doctor_id) (doctors st) = None"
  shows "book_appointment st (Inr patient_id) new_id data
           = (Inl (HttpError 404 ''Patient or Doctor not found''), st)"
  using assms by (auto simp add: book_appointment_def sqlite_text_def)

lemma book_appointment_found:
  assumes "data ''doctor_id'' = Some (JStr doctor_id)"
    and "find (\<lambda>p. p_id p = patient_id) (patients st) \<noteq> None"
    and "find (\<lambda>d. d_id d = doctor_id) (doctors st) \<noteq> None"
  shows "book_appointment st (Inr patient_id) new_id data = (Inl internal_error, st)"
  using assms
  by (auto simp add: book_appointment_def sqlite_text_def sqlite_date_None sqlite_time_None
        split: option.splits)


lemma tables_patient_register:
  "time_slots (snd (patient_register K st new_id data)) = time_slots st"
  "appointments (snd (patient_register K st new_id data)) = appointments st"
  "reviews (snd (patient_register K st new_id data)) = reviews st"
  "doctors (snd (patient_register K st new_id data)) = doctors st"
  by (simp_all add: patient_register_def Let_def split: json.splits)

lemma tables_doctor_register:
  "time_slots (snd (doctor_register K st new_id data)) = time_slots st"
  "appointments (snd (doctor_register K st new_id data)) = appointments st"
  "reviews (snd (doctor_register K st new_id data)) = reviews st"
  by (simp_all add: doctor_register_def Let_def split: json.splits)

lemma doctors_doctor_register:
  "d \<in> set (doctors (snd (doctor_register K st new_id data))) \<Longrightarrow>
   d \<in> set (doctors st) \<or> d_rating_average d = 0"
  by (auto simp add: doctor_register_def Let_def split: if_splits json.splits)


text \<open>
  No handler inserts a \<open>Review\<close> row or assigns \<open>rating_average\<close>: the review table
  of a reachable store is empty and every doctor has the column default 0.
\<close>

lemma reachable_no_reviews:
  "reachable st \<Longrightarrow> reviews st = [] \<and> (\<forall>d \<in> set (doctors st). d_rating_average d = 0)"
proof (induction rule: reachable.induct)
  case start
  then show ?case by (simp add: empty_db_def)
next
  case (patient_register st K new_id data)
  then show ?case by (simp add: tables_patient_register)
next
  case (doctor_register st K new_id data)
  then show ?case by (metis doctors_doctor_register tables_doctor_register(3))
next
  case (add_time_slots st identity new_id doctor_id data)
  then show ?case by (simp add: add_time_slots_fails)
next
  case (book_appointment st identity new_id data)
  then show ?case by (simp add: book_appointment_fails)
next
  case (cancel_appointment st identity appointment_id)
  then show ?case
    by (simp add: cancel_appointment_def split: sum.splits option.splits)
next
  case (confirm_appointment st identity appointment_id)
  then show ?case
    by (simp add: confirm_appointment_def split: sum.splits option.splits)
qed

text \<open>
  The scenario of the specification on the store with doctor \<open>d1\<close> and patient \<open>p1\<close>:
  the publication of the slot and the booking are answered 500 and store nothing, and
  the confirmation and the cancellation of the appointment that was to be are
  answered 404.
\<close>

lemma scenario_run:
  "add_time_slots db2 (Inr ''d1'') ''s1'' ''d1'' slot_body
     = (Inl (HttpError 500 ''Internal server error''), db2)"
  "book_appointment db2 (Inr ''p1'') ''a1'' booking_body
     = (Inl (HttpError 500 ''Internal server error''), db2)"
  "confirm_appointment db2 (Inr ''p1'') ''a1''
     = (Inl (HttpError 404 ''Appointment not found''), db2)"
  "cancel_appointment db2 (Inr ''p1'') ''a1''
     = (Inl (HttpError 404 ''Appointment not found''), db2)"
  by (simp_all add: db2_eq add_time_slots_def book_appointment_def confirm_appointment_def
        cancel_appointment_def slot_body_def booking_body_def sqlite_text_def
        internal_error_def)

lemma published_db_eq: "published_db = db2"
  by (simp add: published_db_def add_time_slots_fails)

text \<open>
  For a login request whose e-mail and password are strings, the two login handlers
  return the token and the record of that e-mail exactly when the record exists and
  the password verifies, and the one 401 response otherwise.
\<close>

lemma login_with_strings:
  assumes "data ''email'' = Some (JStr email)" and "data ''password'' = Some (JStr password)"
  shows "patient_login K st data =
           (case find (\<lambda>p. p_email p = JStr email) (patients st) of
              Some p \<Rightarrow> if check_password_hash K (p_password_hash p) password
                        then Inr (create_access_token K (p_id p), Patient_to_dict p)
                        else Inl (HttpError 401 ''Invalid credentials'')
            | None \<Rightarrow> Inl (HttpError 401 ''Invalid credentials''))"
    and "doctor_login K st data =
           (case find (\<lambda>d. d_email d = JStr email) (doctors st) of
              Some d \<Rightarrow> if check_password_hash K (d_password_hash d) password
                        then Inr (create_access_token K (d_id d), Doctor_to_dict d)
                        else Inl (HttpError 401 ''Invalid credentials'')
            | None \<Rightarrow> Inl (HttpError 401 ''Invalid credentials''))"
  using assms
  by (simp_all add: patient_login_def doctor_login_def sqlite_text_def split: option.splits)

subsection \<open>Status transitions\<close>

text \<open>
  The store \<open>seeded_appointment_db\<close> holds an appointment whose status is CANCELLED. The
  confirm request on it is answered with success and the stored status goes from
  CANCELLED to CONFIRMED.
\<close>

theorem confirm_cancelled_row_counterexample:
  "map a_status (appointments seeded_appointment_db) = [status_value CANCELLED]
   \<and> \<not> isl (fst (confirm_appointment seeded_appointment_db (Inr ''p1'') ''a1''))
   \<and> map a_status
        (appointments (snd (confirm_appointment seeded_appointment_db (Inr ''p1'') ''a1'')))
       = [status_value CONFIRMED]"
  by (simp add: seeded_appointment_db_def seeded_appointment_def db2_eq
        confirm_appointment_def set_status_def)

text \<open>
  Claim C1, as the program has it: for every appointment row of the store and every
  caller with a verified token, \<open>confirm_appointment\<close> succeeds and stores CONFIRMED, and
  \<open>cancel_appointment\<close> succeeds and stores CANCELLED, whatever the status was before
  (terminal or not); the answer carries the row with its new status, and the rows with
  another id are as they were. Neither handler tests the current status.
\<close>

theorem status_handlers_unconditional:
  assumes "find (\<lambda>a. a_id a = appointment_id) (appointments st) = Some appointment"
  shows "fst (confirm_appointment st (Inr caller) appointment_id)
           = Inr (Appointment_to_dict (appointment\<lparr>a_status := status_value CONFIRMED\<rparr>))
       \<and> find (\<lambda>a. a_id a = appointment_id)
            (appointments (snd (confirm_appointment st (Inr caller) appointment_id)))
           = Some (appointment\<lparr>a_status := status_value CONFIRMED\<rparr>)
       \<and> filter (\<lambda>a. a_id a \<noteq> appointment_id)
            (appointments (snd (confirm_appointment st (Inr caller) appointment_id)))
           = filter (\<lambda>a. a_id a \<noteq> appointment_id) (appointments st)
       \<and> fst (cancel_appointment st (Inr caller) appointment_id)
           = Inr (Appointment_to_dict (appointment\<lparr>a_status := status_value CANCELLED\<rparr>))
       \<and> find (\<lambda>a. a_id a = appointment_id)
            (appointments (snd (cancel_appointment st (Inr caller) appointment_id)))
           = Some (appointment\<lparr>a_status := status_value CANCELLED\<rparr>)
       \<and> filter (\<lambda>a. a_id a \<noteq> appointment_id)
            (appointments (snd (cancel_appointment st (Inr caller) appointment_id)))
           = filter (\<lambda>a. a_id a \<noteq> appointment_id) (appointments st)"
  using assms
  by (simp add: confirm_appointment_def cancel_appointment_def find_set_status filter_set_status)

theorem status_handlers_unconditional_witness:
  "find (\<lambda>a. a_id a = ''a1'') (appointments seeded_appointment_db) = Some seeded_appointment
   \<and> a_status seeded_appointment = ''CANCELLED''
   \<and> fst (confirm_appointment seeded_appointment_db (Inr ''d1'') ''a1'')
     = Inr (Appointment_to_dict (seeded_appointment\<lparr>a_status := ''CONFIRMED''\<rparr>))
   \<and> find (\<lambda>a. a_id a = ''a1'')
        (appointments (snd (cancel_appointment seeded_appointment_db (Inr ''d1'') ''a1'')))
     = Some (seeded_appointment\<lparr>a_status := ''CANCELLED''\<rparr>)"
proof -
  have found: "find (\<lambda>a. a_id a = ''a1'') (appointments seeded_appointment_db)
                 = Some seeded_appointment"
    by (simp add: seeded_appointment_db_def seeded_appointment_def)
  show ?thesis
    using found status_handlers_unconditional [OF found, of "''d1''"]
    by (simp add: seeded_appointment_def)
qed

subsection \<open>Booking and slot capacity\<close>




subsection \<open>The capacity bound on reachable stores\<close>



subsection \<open>Listing the available slots\<close>

text \<open>
  The store \<open>seeded_slot_db\<close> holds two slots of doctor \<open>d1\<close> on one date. For
  \<open>full_slot\<close> the column \<open>is_available\<close> is true and \<open>booked_count < capacity\<close> is false;
  for \<open>closed_slot\<close> it is the other way round. The listing for the doctor and the date
  returns \<open>full_slot\<close> and not \<open>closed_slot\<close>.
\<close>

theorem available_slots_counterexample:
  "time_slots seeded_slot_db = [full_slot, closed_slot]
   \<and> map derived_is_available [full_slot, closed_slot] = [False, True]
   \<and> get_available_slots seeded_slot_db ''d1'' (Some ''2024-06-01'')
       = Inr ([TimeSlot_to_dict full_slot], 1)"
  by (simp add: seeded_slot_db_def full_slot_def closed_slot_def db2_eq
        derived_is_available_def get_available_slots_def Let_def)

text \<open>
  Claim C4, as the program has it: for an existing doctor, \<open>get_available_slots\<close>
  returns exactly the doctor's slots whose stored \<open>is_available\<close> column is true,
  restricted to the slots whose date equals the given date when a non-empty date is
  given. The column is a stored Boolean; the listing does not read \<open>booked_count\<close> or
  \<open>capacity\<close>.
\<close>

theorem get_available_slots_stored_flag:
  assumes "find (\<lambda>d. d_id d = doctor_id) (doctors st) \<noteq> None"
  shows "get_available_slots st doctor_id date
           = (let slots = filter (\<lambda>s. s_doctor_id s = doctor_id \<and> s_is_available s
                                      \<and> (truthy date \<longrightarrow> s_date s = JStr (the date)))
                            (time_slots st)
              in Inr (map TimeSlot_to_dict slots, length slots))"
  using assms
  by (auto simp add: get_available_slots_def Let_def filter_then simp del: filter_filter)

theorem get_available_slots_stored_flag_witness:
  "find (\<lambda>d. d_id d = ''d1'') (doctors seeded_slot_db) \<noteq> None
   \<and> get_available_slots seeded_slot_db ''d1'' None = Inr ([TimeSlot_to_dict full_slot], 1)
   \<and> get_available_slots seeded_slot_db ''d1'' (Some ''2024-06-02'') = Inr ([], 0)"
proof -
  have found: "find (\<lambda>d. d_id d = ''d1'') (doctors seeded_slot_db) \<noteq> None"
    by (simp add: seeded_slot_db_def db2_eq)
  show ?thesis
    using found get_available_slots_stored_flag [OF found, of None]
      get_available_slots_stored_flag [OF found, of "Some ''2024-06-02''"]
    by (simp add: seeded_slot_db_def full_slot_def closed_slot_def Let_def)
qed

subsection \<open>Registration\<close>

text \<open>
  Claim C5 at a failing input. A doctor with licence \<open>L1\<close> is registered, and a second
  registration arrives with all seven required keys, a new e-mail and the same licence.
  The handler passes its e-mail query, and the commit violates the unique licence
  column: the answer is the unhandled-exception response with status 500, not the 400
  of the e-mail duplicate, and the store is not changed.
\<close>

theorem doctor_register_duplicate_license:
  "map d_license_number (doctors db1) = [JStr ''L1'']
   \<and> map d_email (doctors db1) = [JStr ''ada@clinic'']
   \<and> second_doctor_body ''license_number'' = Some (JStr ''L1'')
   \<and> second_doctor_body ''email'' = Some (JStr ''cy@clinic'')
   \<and> doctor_register demo_caps db1 ''d2'' second_doctor_body
       = (Inl (HttpError 500 ''Internal server error''), db1)"
  by (simp add: db1_eq doctor_register_def second_doctor_body_def column_text_def
        sqlite_text_def Let_def internal_error_def)

subsection \<open>Booking\<close>

text \<open>
  Claim C6 at a failing input. Patient \<open>p1\<close> and doctor \<open>d1\<close> exist, and the patient
  sends a booking request with the doctor id, a date and a time. The handler passes
  its existence test and assigns the two strings to the date and time columns; the
  commit raises. The answer is the unhandled-exception response with status 500 and no
  appointment is stored, where the claim has one new PENDING appointment. (The other
  half of the claim holds: lemma \<open>book_appointment_not_found\<close>.)
\<close>

theorem book_appointment_creates_nothing:
  "find (\<lambda>p. p_id p = ''p1'') (patients db2) \<noteq> None
   \<and> find (\<lambda>d. d_id d = ''d1'') (doctors db2) \<noteq> None
   \<and> booking_body ''doctor_id'' = Some (JStr ''d1'')
   \<and> booking_body ''appointment_date'' = Some (JStr ''2024-06-01'')
   \<and> booking_body ''appointment_time'' = Some (JStr ''10:00'')
   \<and> appointments db2 = []
   \<and> book_appointment db2 (Inr ''p1'') ''a1'' booking_body
       = (Inl (HttpError 500 ''Internal server error''), db2)"
  by (simp add: db2_eq book_appointment_def booking_body_def sqlite_text_def
        internal_error_def)

subsection \<open>Login\<close>

text \<open>
  Claim C7 at a failing input. The store has the patient with e-mail \<open>bo@home\<close> and the
  doctor with e-mail \<open>ada@clinic\<close>. A login request whose password is the JSON number 5
  fails for every e-mail, but not with one response: for an unknown e-mail the handler
  answers 401 before it looks at the password, and for a known e-mail the password
  check raises on the number and the answer is the unhandled-exception response with
  status 500. The two failure causes are told apart by the status. (With a string for
  the password they are not: lemma \<open>login_with_strings\<close>.)
\<close>

theorem login_number_password_distinguishes:
  "map p_email (patients db2) = [JStr ''bo@home'']
   \<and> map d_email (doctors db2) = [JStr ''ada@clinic'']
   \<and> patient_login demo_caps db2 (number_password_body ''bo@home'')
       = Inl (HttpError 500 ''Internal server error'')
   \<and> patient_login demo_caps db2 (number_password_body ''zed@home'')
       = Inl (HttpError 401 ''Invalid credentials'')
   \<and> doctor_login demo_caps db2 (number_password_body ''ada@clinic'')
       = Inl (HttpError 500 ''Internal server error'')
   \<and> doctor_login demo_caps db2 (number_password_body ''zed@home'')
       = Inl (HttpError 401 ''Invalid credentials'')"
  by (simp add: db2_eq patient_login_def doctor_login_def number_password_body_def
        sqlite_text_def internal_error_def)

subsection \<open>Listing a patient's appointments\<close>

text \<open>
  Claim C9: for any two callers with a verified token the listing of a patient's
  appointments is the same: it is the list of the appointments of the patient id of the
  path, restricted to the given status when a non-empty status is given, whoever the
  token names. Every authenticated identity reads every patient's list.
\<close>

theorem patient_appointments_ignore_caller:
  "get_patient_appointments st (Inr caller1) patient_id status
     = get_patient_appointments st (Inr caller2) patient_id status
   \<and> get_patient_appointments st (Inr caller1) patient_id status
     = (let rows = filter (\<lambda>a. a_patient_id a = patient_id
                               \<and> (truthy status \<longrightarrow> a_status a = the status))
                     (appointments st)
        in Inr (map Appointment_to_dict rows, length rows))"
  by (simp add: get_patient_appointments_def Let_def filter_then del: filter_filter)

theorem patient_appointments_ignore_caller_witness:
  "get_patient_appointments seeded_appointment_db (Inr ''d1'') ''p1'' (Some ''CANCELLED'')
     = get_patient_appointments seeded_appointment_db (Inr ''p1'') ''p1'' (Some ''CANCELLED'')
   \<and> get_patient_appointments seeded_appointment_db (Inr ''d1'') ''p1'' (Some ''CANCELLED'')
     = Inr ([Appointment_to_dict seeded_appointment], 1)
   \<and> get_patient_appointments db2 (Inr ''d1'') ''p1'' None
     = get_patient_appointments db2 (Inr ''p1'') ''p1'' None"
  using patient_appointments_ignore_caller
          [of seeded_appointment_db "''d1''" "''p1''" "Some ''CANCELLED''" "''p1''"]
    patient_appointments_ignore_caller [of db2 "''d1''" "''p1''" None "''p1''"]
  by (simp add: seeded_appointment_db_def seeded_appointment_def
        get_patient_appointments_def Let_def)

subsection \<open>Unknown doctor\<close>

text \<open>
  Claim C10: for an unknown doctor id the slot listing fails with the 404 response, and
  an empty list is the answer only when the doctor exists and none of the doctor's
  available slots matches the filter.
\<close>

theorem available_slots_unknown_doctor:
  "(find (\<lambda>d. d_id d = doctor_id) (doctors st) = None
      \<longrightarrow> get_available_slots st doctor_id date = Inl (HttpError 404 ''Doctor not found''))
   \<and> (get_available_slots st doctor_id date = Inr ([], n)
      \<longrightarrow> find (\<lambda>d. d_id d = doctor_id) (doctors st) \<noteq> None
          \<and> n = 0
          \<and> filter (\<lambda>s. s_doctor_id s = doctor_id \<and> s_is_available s
                        \<and> (truthy date \<longrightarrow> s_date s = JStr (the date))) (time_slots st) = [])"
  by (auto simp add: get_available_slots_def Let_def filter_empty_conv
           split: option.splits if_splits)

theorem available_slots_unknown_doctor_witness:
  "get_available_slots db2 ''nobody'' None = Inl (HttpError 404 ''Doctor not found'')
   \<and> get_available_slots db2 ''d1'' (Some ''2024-07-01'') = Inr ([], 0)
   \<and> find (\<lambda>d. d_id d = ''d1'') (doctors db2) \<noteq> None"
  using available_slots_unknown_doctor [of "''nobody''" db2 None 0]
    available_slots_unknown_doctor [of "''d1''" db2 "Some ''2024-07-01''" 0]
  by (simp add: db2_eq get_available_slots_def Let_def)

end
